theory Spec2Isabelle
  imports Main "HOL-Library.Word"
begin

section \<open>Data model of \<open>securesmtpclientbase.cpp\<close>\<close>

text \<open>
  Pointers to OpenSSL and Windows objects are handles; \<open>None\<close> is \<open>nullptr\<close>.
  The file is compiled either with \<open>_WIN32\<close> defined or without it; the build is a
  parameter of every function whose text depends on it.
\<close>

type_synonym handle = nat

datatype platform = Win32 | Posix

text \<open>
  The fields of the base class that this file reads or writes. The socket is an integer with
  \<open>0\<close> as the "not connected" value; \<open>mCommandTimeOut\<close> is compared with the
  \<open>unsigned int\<close> counter of the read loop.
\<close>

record SMTPClientBase =
  mServerName :: string
  mPort :: nat
  mSock :: int
  mCommandTimeOut :: "32 word"
  mLastSocketErrNo :: int
  mLastServerResponse :: string
  mCommunicationLog :: "(string option \<times> string) list"

record SecureSMTPClientBase = SMTPClientBase +
  mBIO :: "handle option"
  mCTX :: "handle option"
  mSSL :: "handle option"

text \<open>
  Every call that leaves the class is recorded, in order, with its arguments.
  \<open>sleep_s\<close> is \<open>sleep\<close> of \<open>unistd.h\<close> (argument in seconds); \<open>Sleep_ms\<close> is
  \<open>Sleep\<close> of \<open>windows.h\<close> (argument in milliseconds), which line 13 binds to the
  name \<open>sleep\<close> on Windows.
\<close>

datatype call =
    SSL_library_init
  | OpenSSL_add_all_algorithms
  | SSL_load_error_strings
  | TLS_client_method
  | SSL_CTX_new
  | ERR_get_error
  | SSL_CTX_free handle
  | BIO_free_all handle
  | shutdown_SD_BOTH int
  | closesocket int
  | close_fd int
  | WSACleanup
  | BIO_new_ssl_connect "handle option"
  | BIO_get_ssl "handle option"
  | SSL_set_fd "handle option" int
  | SSL_set_mode_AUTO_RETRY "handle option"
  | BIO_set_conn_hostname "handle option" string
  | SSL_CTX_get_cert_store "handle option"
  | CertOpenSystemStore_ROOT
  | GetLastError
  | CertEnumCertificatesInStore
  | d2i_X509
  | X509_STORE_add_cert handle
  | X509_free handle
  | SSL_CTX_set_default_verify_paths "handle option"
  | SSL_get_verify_result "handle option"
  | BIO_do_connect "handle option"
  | BIO_do_handshake "handle option"
  | SSL_get_peer_certificate "handle option"
  | CertFreeCertificateContext
  | CertCloseStore "handle option"
  | BIO_puts "handle option" string
  | BIO_read "handle option"
  | sleep_s nat
  | Sleep_ms nat

datatype stderr_line = Certificate_verification_error int

record world =
  calls :: "call list"
  stderr_out :: "stderr_line list"

definition emit :: "call list \<Rightarrow> world \<Rightarrow> world" where
  "emit cs w = w\<lparr>calls := calls w @ cs\<rparr>"

definition fprintf_stderr :: "stderr_line \<Rightarrow> world \<Rightarrow> world" where
  "fprintf_stderr l w = w\<lparr>stderr_out := stderr_out w @ [l]\<rparr>"

text \<open>
  What the libraries answer during one call of a member function. A read that brings
  bytes answers their number; \<open>Read_failed m\<close> is the answer \<open>- m\<close> (zero or negative).
  \<open>SSL_get_verify_result\<close> answers a \<open>long\<close>: \<open>pre_verify_result\<close> is its answer at line 179
  and \<open>final_verify_result\<close> its answer at line 215, as the values of that \<open>long\<close>.
\<close>

datatype bio_read = Read_bytes string | Read_failed nat

record env =
  SSL_CTX_new_ret :: "handle option"
  ERR_get_error_ret :: int
  BIO_new_ssl_connect_ret :: "handle option"
  BIO_get_ssl_ret :: "handle option"
  CertOpenSystemStore_ret :: "handle option"
  GetLastError_ret :: int
  store_certs :: "handle option list"
  SSL_CTX_set_default_verify_paths_ret :: int
  pre_verify_result :: int
  BIO_do_connect_ret :: int
  BIO_do_handshake_ret :: int
  SSL_get_peer_certificate_ret :: "handle option"
  final_verify_result :: int
  BIO_puts_ret :: int
  BIO_read_ret :: "nat \<Rightarrow> bio_read"
  outbuf_init :: string

definition X509_V_OK :: int where
  "X509_V_OK = 0"

text \<open>
  The conversion of a \<open>long\<close> to the 32-bit \<open>int\<close> of line 215: the value is kept modulo
  \<open>2 ^ 32\<close>, in the range from \<open>- 2 ^ 31\<close> to \<open>2 ^ 31 - 1\<close>. Where \<open>long\<close> has 32 bits
  itself (Windows) its values are in that range already.
\<close>

definition int_of_long :: "int \<Rightarrow> int" where
  "int_of_long v = (v + 2147483648) mod 4294967296 - 2147483648"

definition fits_int :: "int \<Rightarrow> bool" where
  "fits_int v = (- 2147483648 \<le> v \<and> v < 2147483648)"

text \<open>
  The error codes of \<open>sslerrors.h\<close>, which is not among the sources: their values are
  parameters.
\<close>

record sslerrors =
  SSL_CLIENT_STARTTLS_INITSSLCTX_ERROR :: int
  SSL_CLIENT_STARTTLS_BIONEWSSLCONNECT_ERROR :: int
  SSL_CLIENT_STARTTLS_WIN_CERTOPENSYSTEMSTORE_ERROR :: int
  SSL_CLIENT_STARTTLS_CTX_SET_DEFAULT_VERIFY_PATHS_ERROR :: int
  SSL_CLIENT_STARTTLS_BIO_CONNECT_ERROR :: int
  SSL_CLIENT_STARTTLS_BIO_HANDSHAKE_ERROR :: int
  SSL_CLIENT_STARTTLS_GET_CERTIFICATE_ERROR :: int
  SSL_CLIENT_STARTTLS_VERIFY_RESULT_ERROR :: int

section \<open>Collaborators of the base client\<close>

text \<open>
  Modelled from the spec: \<open>addCommunicationLogItem\<close> of the base client, whose code is not
  among the sources. Section 6 of the spec: an append-only diagnostic log whose entries
  carry an optional direction tag; purely observational. \<open>None\<close> is a call that leaves
  the tag to its default.
\<close>

definition addCommunicationLogItem ::
  "string \<Rightarrow> string option \<Rightarrow> 'a SMTPClientBase_scheme \<Rightarrow> 'a SMTPClientBase_scheme" where
  "addCommunicationLogItem pItem pPrefix this =
     this\<lparr>mCommunicationLog := mCommunicationLog this @ [(pPrefix, pItem)]\<rparr>"

text \<open>
  Modelled from the spec: \<open>setLastServerResponse\<close> of the base client, whose code is not
  among the sources. Section 6 of the spec: it records the text as the last response. Its
  argument is a C string.
\<close>

definition setLastServerResponse ::
  "string \<Rightarrow> 'a SMTPClientBase_scheme \<Rightarrow> 'a SMTPClientBase_scheme" where
  "setLastServerResponse pResponse this = this\<lparr>mLastServerResponse := pResponse\<rparr>"

section \<open>Resource lifecycle\<close>

text \<open>\<open>SecureSMTPClientBase::cleanup\<close>, lines 91 to 114.\<close>

definition cleanup ::
  "platform \<Rightarrow> SecureSMTPClientBase \<Rightarrow> world \<Rightarrow> SecureSMTPClientBase \<times> world" where
  "cleanup p this w =
    (let w = (case mCTX this of Some c \<Rightarrow> emit [SSL_CTX_free c] w | None \<Rightarrow> w);
         this = this\<lparr>mCTX := None\<rparr>;
         w = (case mBIO this of Some b \<Rightarrow> emit [BIO_free_all b] w | None \<Rightarrow> w);
         this = this\<lparr>mBIO := None\<rparr>;
         w = (if mSock this \<noteq> 0
              then (case p of
                      Win32 \<Rightarrow> emit [shutdown_SD_BOTH (mSock this), closesocket (mSock this)] w
                    | Posix \<Rightarrow> emit [close_fd (mSock this)] w)
              else w);
         this = this\<lparr>mSock := 0\<rparr>;
         this = this\<lparr>mSSL := None\<rparr>;
         w = (case p of Win32 \<Rightarrow> emit [WSACleanup] w | Posix \<Rightarrow> w)
     in (this, w))"

text \<open>The destructor, lines 33 to 36.\<close>

definition destructor ::
  "platform \<Rightarrow> SecureSMTPClientBase \<Rightarrow> world \<Rightarrow> SecureSMTPClientBase \<times> world" where
  "destructor p this w = cleanup p this w"

text \<open>
  Copying and moving. The base class's own copy and move operations are not among the
  sources; they are parameters acting on the base part of the object. The constructors
  build a new object from \<open>other\<close>; the assignment operators act on two addresses of a
  store, because their guard compares \<open>this\<close> with the address of \<open>other\<close>.
\<close>

text \<open>The object \<open>x\<close> after an operation of the base class has made \<open>b\<close> of its base part.\<close>

definition with_base :: "SMTPClientBase \<Rightarrow> SecureSMTPClientBase \<Rightarrow> SecureSMTPClientBase" where
  "with_base b x = SMTPClientBase.extend b \<lparr>mBIO = mBIO x, mCTX = mCTX x, mSSL = mSSL x\<rparr>"

text \<open>Copy constructor, lines 39 to 45.\<close>

definition copy_constructor ::
  "(SMTPClientBase \<Rightarrow> SMTPClientBase) \<Rightarrow> SecureSMTPClientBase \<Rightarrow> SecureSMTPClientBase" where
  "copy_constructor base_copy other =
     SMTPClientBase.extend (base_copy (SMTPClientBase.truncate other))
       \<lparr>mBIO = None, mCTX = None, mSSL = None\<rparr>"

type_synonym store = "nat \<Rightarrow> SecureSMTPClientBase"

text \<open>Copy assignment, lines 48 to 57.\<close>

definition copy_assignment ::
  "(SMTPClientBase \<Rightarrow> SMTPClientBase \<Rightarrow> SMTPClientBase) \<Rightarrow> nat \<Rightarrow> nat \<Rightarrow> store \<Rightarrow> store" where
  "copy_assignment base_assign this other h =
     (if this \<noteq> other
      then (let b = base_assign (SMTPClientBase.truncate (h this)) (SMTPClientBase.truncate (h other));
                t = with_base b (h this);
                t = t\<lparr>mBIO := None\<rparr>;
                t = t\<lparr>mCTX := None\<rparr>;
                t = t\<lparr>mSSL := None\<rparr>
            in h(this := t))
      else h)"

text \<open>
  Move constructor, lines 60 to 71: the result is the new object and \<open>other\<close> as the
  constructor leaves it.
\<close>

definition move_constructor ::
  "(SMTPClientBase \<Rightarrow> SMTPClientBase \<times> SMTPClientBase) \<Rightarrow> SecureSMTPClientBase
     \<Rightarrow> SecureSMTPClientBase \<times> SecureSMTPClientBase" where
  "move_constructor base_move other =
     (let (b, ob) = base_move (SMTPClientBase.truncate other);
          other = with_base ob other;
          this = SMTPClientBase.extend b \<lparr>mBIO = mBIO other, mCTX = mCTX other, mSSL = mSSL other\<rparr>;
          other = other\<lparr>mBIO := None\<rparr>;
          other = other\<lparr>mCTX := None\<rparr>;
          other = other\<lparr>mSSL := None\<rparr>
      in (this, other))"

text \<open>Move assignment, lines 74 to 89.\<close>

definition move_assignment ::
  "(SMTPClientBase \<Rightarrow> SMTPClientBase \<Rightarrow> SMTPClientBase \<times> SMTPClientBase) \<Rightarrow> nat \<Rightarrow> nat
     \<Rightarrow> store \<Rightarrow> store" where
  "move_assignment base_move_assign this other h =
     (if this \<noteq> other
      then (let (b, ob) = base_move_assign (SMTPClientBase.truncate (h this))
                            (SMTPClientBase.truncate (h other));
                t = with_base b (h this);
                ot = with_base ob (h other);
                t = t\<lparr>mBIO := mBIO ot\<rparr>;
                t = t\<lparr>mCTX := mCTX ot\<rparr>;
                t = t\<lparr>mSSL := mSSL ot\<rparr>;
                ot = ot\<lparr>mBIO := None\<rparr>;
                ot = ot\<lparr>mCTX := None\<rparr>;
                ot = ot\<lparr>mSSL := None\<rparr>
            in h(this := t, other := ot))
      else h)"

section \<open>The handshake\<close>

text \<open>\<open>initializeSSLContext\<close>, lines 117 to 129.\<close>

definition initializeSSLContext ::
  "env \<Rightarrow> SecureSMTPClientBase \<Rightarrow> world \<Rightarrow> SecureSMTPClientBase \<times> world" where
  "initializeSSLContext env this w =
    (let w = emit [SSL_library_init, OpenSSL_add_all_algorithms, SSL_load_error_strings,
                   TLS_client_method, SSL_CTX_new] w;
         this = this\<lparr>mCTX := SSL_CTX_new_ret env\<rparr>
     in if mCTX this = None
        then (this\<lparr>mLastSocketErrNo := ERR_get_error_ret env\<rparr>, emit [ERR_get_error] w)
        else (this, w))"

text \<open>The decimal digits that \<open>sprintf\<close> writes for the port, line 146.\<close>

fun decimal :: "nat \<Rightarrow> string" where
  "decimal n = (if n < 10 then [char_of (48 + n)]
                else decimal (n div 10) @ [char_of (48 + n mod 10)])"

declare decimal.simps [simp del]

text \<open>
  The calls of the loop of lines 164 to 173 over the certificates of the Windows store;
  each entry of the list is what \<open>d2i_X509\<close> makes of one certificate. The last
  \<open>CertEnumCertificatesInStore\<close> answers null and ends the loop.
\<close>

fun enumerate_store :: "handle option list \<Rightarrow> call list" where
  "enumerate_store [] = [CertEnumCertificatesInStore]"
| "enumerate_store (x509 # rest) =
     [CertEnumCertificatesInStore, d2i_X509]
     @ (case x509 of Some c \<Rightarrow> [X509_STORE_add_cert c, X509_free c] | None \<Rightarrow> [])
     @ enumerate_store rest"

text \<open>
  \<open>startTLSNegotiation\<close>, lines 131 to 228. The block of lines 152 to 178 yields
  \<open>Some code\<close> where the source returns \<open>code\<close> from inside it.
\<close>

definition startTLSNegotiation ::
  "sslerrors \<Rightarrow> platform \<Rightarrow> env \<Rightarrow> SecureSMTPClientBase \<Rightarrow> world
     \<Rightarrow> int \<times> SecureSMTPClientBase \<times> world" where
  "startTLSNegotiation E p env this0 w0 =
    (let this = addCommunicationLogItem ''<Start TLS negotiation>'' None this0;
         (this, w) = initializeSSLContext env this w0
     in if mCTX this = None then (SSL_CLIENT_STARTTLS_INITSSLCTX_ERROR E, this, w)
     else
     let w = emit [BIO_new_ssl_connect (mCTX this)] w;
         this = this\<lparr>mBIO := BIO_new_ssl_connect_ret env\<rparr>
     in if mBIO this = None then (SSL_CLIENT_STARTTLS_BIONEWSSLCONNECT_ERROR E, this, w)
     else
     let name = mServerName this @ '':'' @ decimal (mPort this);
         w = emit [BIO_get_ssl (mBIO this)] w;
         this = this\<lparr>mSSL := BIO_get_ssl_ret env\<rparr>;
         w = emit [SSL_set_fd (mSSL this) (mSock this), SSL_set_mode_AUTO_RETRY (mSSL this),
                   BIO_set_conn_hostname (mBIO this) name] w;
         (returned, this, w) =
           (case p of
              Win32 \<Rightarrow>
                (let w = emit [SSL_CTX_get_cert_store (mCTX this), CertOpenSystemStore_ROOT] w
                 in case CertOpenSystemStore_ret env of
                      None \<Rightarrow>
                        (Some (SSL_CLIENT_STARTTLS_WIN_CERTOPENSYSTEMSTORE_ERROR E),
                         this\<lparr>mLastSocketErrNo := GetLastError_ret env\<rparr>, emit [GetLastError] w)
                    | Some hStore \<Rightarrow> (None, this, emit (enumerate_store (store_certs env)) w))
            | Posix \<Rightarrow>
                (let w = emit [SSL_CTX_set_default_verify_paths (mCTX this)] w
                 in if SSL_CTX_set_default_verify_paths_ret env = 0
                    then (Some (SSL_CLIENT_STARTTLS_CTX_SET_DEFAULT_VERIFY_PATHS_ERROR E), this, w)
                    else (None, this, w)))
     in case returned of Some code \<Rightarrow> (code, this, w) | None \<Rightarrow>
     let w = emit [SSL_get_verify_result (mSSL this)] w;
         verify_flag = pre_verify_result env;
         w = (if verify_flag \<noteq> X509_V_OK
              then fprintf_stderr (Certificate_verification_error verify_flag) w else w);
         w = emit [BIO_do_connect (mBIO this)] w
     in if BIO_do_connect_ret env \<le> 0
        then (let (this, w) = cleanup p this w;
                  w = emit [ERR_get_error] w;
                  this = this\<lparr>mLastSocketErrNo := ERR_get_error_ret env\<rparr>
              in (SSL_CLIENT_STARTTLS_BIO_CONNECT_ERROR E, this, w))
     else
     let this = addCommunicationLogItem ''<Negotiate a TLS session>'' (Some ''c & s'') this;
         w = emit [BIO_do_handshake (mBIO this)] w
     in if BIO_do_handshake_ret env \<le> 0
        then (let (this, w) = cleanup p this w;
                  w = emit [ERR_get_error] w;
                  this = this\<lparr>mLastSocketErrNo := ERR_get_error_ret env\<rparr>
              in (SSL_CLIENT_STARTTLS_BIO_HANDSHAKE_ERROR E, this, w))
     else
     let this = addCommunicationLogItem ''<Check result of negotiation>'' (Some ''c & s'') this;
         w = emit [SSL_get_peer_certificate (mSSL this)] w;
         cert = SSL_get_peer_certificate_ret env;
         w = (case cert of Some c \<Rightarrow> emit [X509_free c] w | None \<Rightarrow> w)
     in if cert = None
        then (let (this, w) = cleanup p this w
              in (SSL_CLIENT_STARTTLS_GET_CERTIFICATE_ERROR E, this, w))
     else
     let w = emit [SSL_get_verify_result (mSSL this)] w;
         res = int_of_long (final_verify_result env)
     in if \<not> (X509_V_OK = res)
        then (let (this, w) = cleanup p this w
              in (SSL_CLIENT_STARTTLS_VERIFY_RESULT_ERROR E, this, w))
     else
     let this = addCommunicationLogItem ''TLS session ready!'' None this;
         w = (case p of
                Win32 \<Rightarrow> emit [CertFreeCertificateContext,
                                CertCloseStore (CertOpenSystemStore_ret env)] w
              | Posix \<Rightarrow> w)
     in (0, this, w))"

section \<open>The secure command channel\<close>

text \<open>\<open>sendCommand\<close>, lines 248 to 256.\<close>

definition sendCommand ::
  "platform \<Rightarrow> env \<Rightarrow> string \<Rightarrow> int \<Rightarrow> SecureSMTPClientBase \<Rightarrow> world
     \<Rightarrow> int \<times> SecureSMTPClientBase \<times> world" where
  "sendCommand p env pCommand pErrorCode this w =
    (let w = emit [BIO_puts (mBIO this) pCommand] w;
         status = (if BIO_puts_ret env < 0 then 1 else 0 :: int)
     in if status \<noteq> 0
        then (let w = emit [ERR_get_error] w;
                  this = this\<lparr>mLastSocketErrNo := ERR_get_error_ret env\<rparr>;
                  (this, w) = cleanup p this w
              in (pErrorCode, this, w))
        else (0, this, w))"

text \<open>The name \<open>sleep\<close>: \<open>Sleep\<close> on Windows (line 13), \<open>sleep\<close> of \<open>unistd.h\<close> otherwise.\<close>

fun sleep :: "platform \<Rightarrow> nat \<Rightarrow> call" where
  "sleep Win32 n = Sleep_ms n"
| "sleep Posix n = sleep_s n"

text \<open>What \<open>BIO_read\<close> returns, and what it leaves in the buffer it was given.\<close>

fun bytes_received_of :: "bio_read \<Rightarrow> int" where
  "bytes_received_of (Read_bytes d) = int (length d)"
| "bytes_received_of (Read_failed m) = - int m"

fun read_into :: "bio_read \<Rightarrow> string \<Rightarrow> string" where
  "read_into (Read_bytes d) outbuf = d @ drop (length d) outbuf"
| "read_into (Read_failed m) outbuf = outbuf"

text \<open>
  The loop of lines 270 to 273. \<open>k\<close> counts the reads made so far in this call. The result is
  \<open>bytes_received\<close>, \<open>waitTime\<close> and the buffer as the loop leaves them.
\<close>

function read_loop ::
  "platform \<Rightarrow> env \<Rightarrow> handle option \<Rightarrow> 32 word \<Rightarrow> nat \<Rightarrow> 32 word \<Rightarrow> string \<Rightarrow> world
     \<Rightarrow> int \<times> 32 word \<times> string \<times> world" where
  "read_loop p env bio T k waitTime outbuf w =
    (if bytes_received_of (BIO_read_ret env k) \<le> 0 \<and> waitTime < T
     then read_loop p env bio T (Suc k) (waitTime + 1)
            (read_into (BIO_read_ret env k) outbuf) (emit [BIO_read bio, sleep p 1] w)
     else (bytes_received_of (BIO_read_ret env k), waitTime,
           read_into (BIO_read_ret env k) outbuf, emit [BIO_read bio] w))"
  by pat_completeness auto

termination read_loop
proof (relation "measure (\<lambda>(p, env, bio, T, k, waitTime, outbuf, w). unat T - unat waitTime)")
  show "wf (measure (\<lambda>(p, env, bio, T, k, waitTime, outbuf, w). unat T - unat waitTime))"
    by simp
next
  fix p :: platform and env :: env and bio :: "handle option" and T waitTime :: "32 word"
    and k :: nat and outbuf :: string and w :: world
  assume "bytes_received_of (BIO_read_ret env k) \<le> 0 \<and> waitTime < T"
  then have lt: "waitTime < T" by simp
  then have below: "unat waitTime < unat T" by (simp add: word_less_nat_alt)
  have "waitTime + 1 \<noteq> 0"
  proof
    assume "waitTime + 1 = 0"
    then have "waitTime = - 1" by (simp add: eq_neg_iff_add_eq_0)
    with lt show False by simp
  qed
  then have "1 + waitTime \<noteq> 0" by (simp add: add.commute)
  then have "unat (1 + waitTime) = Suc (unat waitTime)" by (rule unatSuc)
  then have "unat (waitTime + 1) = Suc (unat waitTime)" by (simp add: add.commute)
  with below
  show "((p, env, bio, T, Suc k, waitTime + 1, read_into (BIO_read_ret env k) outbuf,
          emit [BIO_read bio, sleep p 1] w),
         (p, env, bio, T, k, waitTime, outbuf, w))
        \<in> measure (\<lambda>(p, env, bio, T, k, waitTime, outbuf, w). unat T - unat waitTime)"
    by simp
qed

declare read_loop.simps [simp del]

text \<open>The C string that starts a buffer: the bytes before the first NUL.\<close>

definition c_str :: "string \<Rightarrow> string" where
  "c_str buf = takeWhile (\<lambda>c. c \<noteq> CHR 0x00) buf"

text \<open>
  \<open>sendCommandWithFeedback\<close>, lines 258 to 283. \<open>extractReturnCode\<close> belongs to the base
  client and is not among the sources: it is a parameter. The branch of line 274 is entered
  only with \<open>bytes_received > 0\<close> (lemma \<open>read_loop_in_time\<close>), so the index of line 275 is
  not negative.
\<close>

definition sendCommandWithFeedback ::
  "platform \<Rightarrow> env \<Rightarrow> (string \<Rightarrow> int) \<Rightarrow> string \<Rightarrow> int \<Rightarrow> int \<Rightarrow> SecureSMTPClientBase \<Rightarrow> world
     \<Rightarrow> int \<times> SecureSMTPClientBase \<times> world" where
  "sendCommandWithFeedback p env extractReturnCode pCommand pErrorCode pTimeoutCode this w =
    (let w = emit [BIO_puts (mBIO this) pCommand] w;
         status = (if BIO_puts_ret env < 0 then 1 else 0 :: int)
     in if status \<noteq> 0
        then (let w = emit [ERR_get_error] w;
                  this = this\<lparr>mLastSocketErrNo := ERR_get_error_ret env\<rparr>;
                  (this, w) = cleanup p this w
              in (pErrorCode, this, w))
        else
        let (bytes_received, waitTime, outbuf, w) =
              read_loop p env (mBIO this) (mCommandTimeOut this) 0 0 (outbuf_init env) w
        in if waitTime < mCommandTimeOut this
           then (let outbuf = outbuf[nat (bytes_received - 1) := CHR 0x00];
                     this = setLastServerResponse (c_str outbuf) this;
                     this = addCommunicationLogItem (c_str outbuf) (Some ''s'') this
                 in (extractReturnCode (c_str outbuf), this, w))
           else (let (this, w) = cleanup p this w
                 in (pTimeoutCode, this, w)))"

text \<open>
  Modelled from the spec: \<open>extractReturnCode\<close> of the base client, whose code is not among
  the sources. Section 4.4 of the spec: the first whitespace-delimited token of the
  response is interpreted as an integer SMTP reply code. The spec leaves a malformed
  leading token open: the model answers \<open>None\<close> there.
\<close>

definition is_space :: "char \<Rightarrow> bool" where
  "is_space c = (c \<in> set [CHR '' '', CHR 0x09, CHR 0x0A, CHR 0x0B, CHR 0x0C, CHR 0x0D])"

definition is_digit :: "char \<Rightarrow> bool" where
  "is_digit c = (48 \<le> (of_char c :: nat) \<and> (of_char c :: nat) \<le> 57)"

definition first_token :: "string \<Rightarrow> string" where
  "first_token s = takeWhile (\<lambda>c. \<not> is_space c) (dropWhile is_space s)"

definition extractReturnCode_spec :: "string \<Rightarrow> int option" where
  "extractReturnCode_spec s =
     (let t = first_token s
      in if t \<noteq> [] \<and> list_all is_digit t
         then Some (foldl (\<lambda>n c. 10 * n + (int (of_char c) - 48)) 0 t)
         else None)"

section \<open>Notions used by the properties\<close>

text \<open>The calls made between two states of the world, the later one extending the earlier.\<close>

definition made_calls :: "world \<Rightarrow> world \<Rightarrow> call list" where
  "made_calls w w' = drop (length (calls w)) (calls w')"

text \<open>All three handles null and the socket at its sentinel.\<close>

definition released :: "SecureSMTPClientBase \<Rightarrow> bool" where
  "released t = (mCTX t = None \<and> mBIO t = None \<and> mSSL t = None \<and> mSock t = 0)"

text \<open>The calls of one \<open>cleanup\<close> on the object \<open>t\<close>.\<close>

definition teardown_calls :: "platform \<Rightarrow> SecureSMTPClientBase \<Rightarrow> call list" where
  "teardown_calls p t =
     (case mCTX t of Some c \<Rightarrow> [SSL_CTX_free c] | None \<Rightarrow> [])
     @ (case mBIO t of Some b \<Rightarrow> [BIO_free_all b] | None \<Rightarrow> [])
     @ (if mSock t \<noteq> 0
        then (case p of Win32 \<Rightarrow> [shutdown_SD_BOTH (mSock t), closesocket (mSock t)]
                      | Posix \<Rightarrow> [close_fd (mSock t)])
        else [])
     @ (case p of Win32 \<Rightarrow> [WSACleanup] | Posix \<Rightarrow> [])"

text \<open>The calls that give a resource back: those that \<open>cleanup\<close> can make.\<close>

fun is_release :: "call \<Rightarrow> bool" where
  "is_release (SSL_CTX_free c) = True"
| "is_release (BIO_free_all b) = True"
| "is_release (shutdown_SD_BOTH s) = True"
| "is_release (closesocket s) = True"
| "is_release (close_fd s) = True"
| "is_release WSACleanup = True"
| "is_release c = False"

text \<open>The calls that free the TLS context or the TLS session.\<close>

fun frees_tls_handle :: "call \<Rightarrow> bool" where
  "frees_tls_handle (SSL_CTX_free c) = True"
| "frees_tls_handle (BIO_free_all b) = True"
| "frees_tls_handle c = False"

text \<open>
  The calls of the stages after trust-store provisioning: transport connect, TLS handshake,
  the peer-certificate check and the reading of the verification result.
\<close>

fun is_later_stage :: "call \<Rightarrow> bool" where
  "is_later_stage (BIO_do_connect b) = True"
| "is_later_stage (BIO_do_handshake b) = True"
| "is_later_stage (SSL_get_peer_certificate s) = True"
| "is_later_stage (SSL_get_verify_result s) = True"
| "is_later_stage c = False"

text \<open>The trust-store step fails, and the code it then returns.\<close>

definition trust_store_fails :: "platform \<Rightarrow> env \<Rightarrow> bool" where
  "trust_store_fails p env =
     (case p of Win32 \<Rightarrow> CertOpenSystemStore_ret env = None
              | Posix \<Rightarrow> SSL_CTX_set_default_verify_paths_ret env = 0)"

definition store_error :: "sslerrors \<Rightarrow> platform \<Rightarrow> int" where
  "store_error E p =
     (case p of Win32 \<Rightarrow> SSL_CLIENT_STARTTLS_WIN_CERTOPENSYSTEMSTORE_ERROR E
              | Posix \<Rightarrow> SSL_CLIENT_STARTTLS_CTX_SET_DEFAULT_VERIFY_PATHS_ERROR E)"

text \<open>No error code of \<open>startTLSNegotiation\<close> is the success value \<open>0\<close>.\<close>

definition codes_nonzero :: "sslerrors \<Rightarrow> bool" where
  "codes_nonzero E =
     (0 \<notin> set [SSL_CLIENT_STARTTLS_INITSSLCTX_ERROR E,
                SSL_CLIENT_STARTTLS_BIONEWSSLCONNECT_ERROR E,
                SSL_CLIENT_STARTTLS_WIN_CERTOPENSYSTEMSTORE_ERROR E,
                SSL_CLIENT_STARTTLS_CTX_SET_DEFAULT_VERIFY_PATHS_ERROR E,
                SSL_CLIENT_STARTTLS_BIO_CONNECT_ERROR E,
                SSL_CLIENT_STARTTLS_BIO_HANDSHAKE_ERROR E,
                SSL_CLIENT_STARTTLS_GET_CERTIFICATE_ERROR E,
                SSL_CLIENT_STARTTLS_VERIFY_RESULT_ERROR E])"

text \<open>Every stage before the peer-certificate check succeeds.\<close>

definition handshake_done :: "platform \<Rightarrow> env \<Rightarrow> bool" where
  "handshake_done p env =
     (SSL_CTX_new_ret env \<noteq> None \<and> BIO_new_ssl_connect_ret env \<noteq> None
      \<and> \<not> trust_store_fails p env
      \<and> 0 < BIO_do_connect_ret env \<and> 0 < BIO_do_handshake_ret env)"

text \<open>The handles that the object holds once lines 134 to 147 have succeeded.\<close>

definition session_of :: "env \<Rightarrow> SecureSMTPClientBase \<Rightarrow> SecureSMTPClientBase" where
  "session_of env this =
     this\<lparr>mBIO := BIO_new_ssl_connect_ret env, mCTX := SSL_CTX_new_ret env,
          mSSL := BIO_get_ssl_ret env\<rparr>"

text \<open>The calls of a read loop that sleeps \<open>m\<close> times.\<close>

definition polling :: "platform \<Rightarrow> handle option \<Rightarrow> nat \<Rightarrow> call list" where
  "polling p bio m = concat (replicate m [BIO_read bio, sleep p 1]) @ [BIO_read bio]"

fun is_sleep :: "call \<Rightarrow> bool" where
  "is_sleep (sleep_s n) = True"
| "is_sleep (Sleep_ms n) = True"
| "is_sleep c = False"

text \<open>The time a call asks the system to wait, in milliseconds.\<close>

fun requested_ms :: "call \<Rightarrow> nat" where
  "requested_ms (sleep_s n) = 1000 * n"
| "requested_ms (Sleep_ms n) = n"
| "requested_ms c = 0"

subsection \<open>Concrete inputs\<close>

definition world0 :: world where
  "world0 = \<lparr>calls = [], stderr_out = []\<rparr>"

definition example_client :: SecureSMTPClientBase where
  "example_client =
     \<lparr>mServerName = ''smtp.example.org'', mPort = 587, mSock = 5, mCommandTimeOut = 3,
      mLastSocketErrNo = 0, mLastServerResponse = [], mCommunicationLog = [],
      mBIO = None, mCTX = None, mSSL = None\<rparr>"

definition live_client :: SecureSMTPClientBase where
  "live_client = example_client\<lparr>mBIO := Some 2, mCTX := Some 1, mSSL := Some 3\<rparr>"

definition example_codes :: sslerrors where
  "example_codes =
     \<lparr>SSL_CLIENT_STARTTLS_INITSSLCTX_ERROR = - 30,
      SSL_CLIENT_STARTTLS_BIONEWSSLCONNECT_ERROR = - 31,
      SSL_CLIENT_STARTTLS_WIN_CERTOPENSYSTEMSTORE_ERROR = - 32,
      SSL_CLIENT_STARTTLS_CTX_SET_DEFAULT_VERIFY_PATHS_ERROR = - 33,
      SSL_CLIENT_STARTTLS_BIO_CONNECT_ERROR = - 34,
      SSL_CLIENT_STARTTLS_BIO_HANDSHAKE_ERROR = - 35,
      SSL_CLIENT_STARTTLS_GET_CERTIFICATE_ERROR = - 36,
      SSL_CLIENT_STARTTLS_VERIFY_RESULT_ERROR = - 37\<rparr>"

definition CRLF :: string where
  "CRLF = [CHR 0x0D, CHR 0x0A]"

text \<open>A server that passes every stage and answers every read with \<open>250 OK\<close> and CRLF.\<close>

definition good_env :: env where
  "good_env =
     \<lparr>SSL_CTX_new_ret = Some 1, ERR_get_error_ret = 0, BIO_new_ssl_connect_ret = Some 2,
      BIO_get_ssl_ret = Some 3, CertOpenSystemStore_ret = Some 4, GetLastError_ret = 0,
      store_certs = [Some 10, None], SSL_CTX_set_default_verify_paths_ret = 1,
      pre_verify_result = 0, BIO_do_connect_ret = 1, BIO_do_handshake_ret = 1,
      SSL_get_peer_certificate_ret = Some 7, final_verify_result = 0, BIO_puts_ret = 16,
      BIO_read_ret = (\<lambda>k. Read_bytes (''250 OK'' @ CRLF)),
      outbuf_init = replicate 1024 (CHR ''x'')\<rparr>"

text \<open>The same server, silent: every read answers \<open>0\<close>.\<close>

definition silent_env :: env where
  "silent_env = good_env\<lparr>BIO_read_ret := (\<lambda>k. Read_failed 0)\<rparr>"

text \<open>The same server, answering only from the second read on.\<close>

definition slow_env :: env where
  "slow_env =
     good_env\<lparr>BIO_read_ret :=
                (\<lambda>k. if k < 1 then Read_failed 1 else Read_bytes (''250 OK'' @ CRLF))\<rparr>"

text \<open>The same server, answering only from the fourth read on.\<close>

definition late_env :: env where
  "late_env =
     good_env\<lparr>BIO_read_ret :=
                (\<lambda>k. if k < 3 then Read_failed 1 else Read_bytes (''250 OK'' @ CRLF))\<rparr>"

text \<open>A reply-code parser that follows the rule of the spec, with \<open>- 1\<close> where it is open.\<close>

definition example_parser :: "string \<Rightarrow> int" where
  "example_parser s = (case extractReturnCode_spec s of Some n \<Rightarrow> n | None \<Rightarrow> - 1)"

section \<open>Facts about \<open>cleanup\<close>\<close>

lemma cleanup_object:
  "fst (cleanup p this w) = this\<lparr>mSock := 0, mBIO := None, mCTX := None, mSSL := None\<rparr>"
  by (simp add: cleanup_def Let_def)

lemma cleanup_stderr: "stderr_out (snd (cleanup p this w)) = stderr_out w"
  by (simp add: cleanup_def Let_def emit_def split: option.splits platform.splits)

lemma cleanup_calls: "calls (snd (cleanup p this w)) = calls w @ teardown_calls p this"
  by (simp add: cleanup_def Let_def emit_def teardown_calls_def
      split: option.splits platform.splits)

lemma cleanup_released: "released (fst (cleanup p this w))"
  by (simp add: cleanup_object released_def)

lemma cleanup_made_calls: "made_calls w (snd (cleanup p this w)) = teardown_calls p this"
  by (simp add: made_calls_def cleanup_calls)

lemma teardown_calls_released:
  "released t \<Longrightarrow> teardown_calls p t = (case p of Win32 \<Rightarrow> [WSACleanup] | Posix \<Rightarrow> [])"
  by (simp add: released_def teardown_calls_def)

lemma teardown_calls_no_tls:
  "mCTX t = None \<Longrightarrow> mBIO t = None \<Longrightarrow> filter frees_tls_handle (teardown_calls p t) = []"
  by (cases p) (simp_all add: teardown_calls_def)

section \<open>Copying and moving\<close>

text \<open>
  C7. A copy holds no live secure-session handle: after the copy constructor, and after a
  copy assignment to another object, the TLS context, the TLS session (BIO) and the SSL
  handle of the copy are null, whatever the source held. The assignment operator does
  nothing when an object is assigned to itself (the guard of line 50), so the two
  addresses are taken to differ.
\<close>

theorem copy_has_no_live_handles:
  assumes "this \<noteq> other"
  shows "mBIO (copy_constructor base_copy src) = None
       \<and> mCTX (copy_constructor base_copy src) = None
       \<and> mSSL (copy_constructor base_copy src) = None
       \<and> mBIO (copy_assignment base_assign this other h this) = None
       \<and> mCTX (copy_assignment base_assign this other h this) = None
       \<and> mSSL (copy_assignment base_assign this other h this) = None
       \<and> copy_assignment base_assign this other h other = h other"
  using assms
  by (simp add: with_base_def copy_constructor_def copy_assignment_def SMTPClientBase.defs Let_def)

theorem copy_has_no_live_handles_witness:
  "(0 :: nat) \<noteq> 1
   \<and> mCTX live_client = Some 1
   \<and> mCTX (copy_constructor (\<lambda>b. b) live_client) = None
   \<and> mBIO (copy_constructor (\<lambda>b. b) live_client) = None
   \<and> mSSL (copy_constructor (\<lambda>b. b) live_client) = None
   \<and> mCTX (copy_assignment (\<lambda>t b. b) 0 1 (\<lambda>a. live_client) 0) = None
   \<and> mBIO (copy_assignment (\<lambda>t b. b) 0 1 (\<lambda>a. live_client) 0) = None
   \<and> mSSL (copy_assignment (\<lambda>t b. b) 0 1 (\<lambda>a. live_client) 0) = None"
proof -
  have ne: "(0 :: nat) \<noteq> 1" by simp
  show ?thesis
    using copy_has_no_live_handles [OF ne, of "\<lambda>b. b" live_client "\<lambda>t b. b" "\<lambda>a. live_client"]
    by (simp add: live_client_def)
qed

text \<open>
  C6. After a move the destination holds the three handles (TLS context, TLS session/BIO,
  SSL handle) that the source held and the source holds null in their place, for the move
  constructor and for a move assignment between two objects; a later \<open>cleanup\<close> or
  destruction of the source then frees no TLS context and no TLS session at all, so none
  of those the destination now owns.
\<close>

theorem move_transfers_handles:
  assumes "this \<noteq> other"
  shows "mBIO (fst (move_constructor base_move src)) = mBIO src
       \<and> mCTX (fst (move_constructor base_move src)) = mCTX src
       \<and> mSSL (fst (move_constructor base_move src)) = mSSL src
       \<and> mBIO (snd (move_constructor base_move src)) = None
       \<and> mCTX (snd (move_constructor base_move src)) = None
       \<and> mSSL (snd (move_constructor base_move src)) = None
       \<and> filter frees_tls_handle
            (made_calls w (snd (cleanup p (snd (move_constructor base_move src)) w))) = []
       \<and> filter frees_tls_handle
            (made_calls w (snd (destructor p (snd (move_constructor base_move src)) w))) = []
       \<and> mBIO (move_assignment base_move_assign this other h this) = mBIO (h other)
       \<and> mCTX (move_assignment base_move_assign this other h this) = mCTX (h other)
       \<and> mSSL (move_assignment base_move_assign this other h this) = mSSL (h other)
       \<and> mBIO (move_assignment base_move_assign this other h other) = None
       \<and> mCTX (move_assignment base_move_assign this other h other) = None
       \<and> mSSL (move_assignment base_move_assign this other h other) = None
       \<and> filter frees_tls_handle
            (made_calls w
              (snd (cleanup p (move_assignment base_move_assign this other h other) w))) = []
       \<and> filter frees_tls_handle
            (made_calls w
              (snd (destructor p (move_assignment base_move_assign this other h other) w))) = []"
proof -
  have ctor: "mBIO (fst (move_constructor base_move src)) = mBIO src
       \<and> mCTX (fst (move_constructor base_move src)) = mCTX src
       \<and> mSSL (fst (move_constructor base_move src)) = mSSL src
       \<and> mBIO (snd (move_constructor base_move src)) = None
       \<and> mCTX (snd (move_constructor base_move src)) = None
       \<and> mSSL (snd (move_constructor base_move src)) = None"
    by (simp add: with_base_def move_constructor_def SMTPClientBase.defs Let_def
        split: prod.splits)
  have asg: "mBIO (move_assignment base_move_assign this other h this) = mBIO (h other)
       \<and> mCTX (move_assignment base_move_assign this other h this) = mCTX (h other)
       \<and> mSSL (move_assignment base_move_assign this other h this) = mSSL (h other)
       \<and> mBIO (move_assignment base_move_assign this other h other) = None
       \<and> mCTX (move_assignment base_move_assign this other h other) = None
       \<and> mSSL (move_assignment base_move_assign this other h other) = None"
    using assms
    by (simp add: with_base_def move_assignment_def SMTPClientBase.defs Let_def
        split: prod.splits)
  from ctor asg show ?thesis
    by (simp add: destructor_def cleanup_made_calls teardown_calls_no_tls)
qed

theorem move_transfers_handles_witness:
  "(0 :: nat) \<noteq> 1
   \<and> mCTX (fst (move_constructor (\<lambda>b. (b, b)) live_client)) = Some 1
   \<and> mCTX (snd (move_constructor (\<lambda>b. (b, b)) live_client)) = None
   \<and> made_calls world0 (snd (cleanup Posix (snd (move_constructor (\<lambda>b. (b, b)) live_client)) world0))
       = [close_fd 5]
   \<and> mBIO (move_assignment (\<lambda>t b. (b, b)) 0 1
             (\<lambda>a. if a = 1 then live_client else example_client) 0) = Some 2
   \<and> mBIO (move_assignment (\<lambda>t b. (b, b)) 0 1
             (\<lambda>a. if a = 1 then live_client else example_client) 1) = None"
proof -
  have ne: "(0 :: nat) \<noteq> 1" by simp
  have "mSock (snd (move_constructor (\<lambda>b. (b, b)) live_client)) = 5"
    by (simp add: with_base_def move_constructor_def SMTPClientBase.defs Let_def
        live_client_def example_client_def)
  then show ?thesis
    using move_transfers_handles [OF ne, of "\<lambda>b. (b, b)" live_client world0 Posix
        "\<lambda>t b. (b, b)" "\<lambda>a. if a = 1 then live_client else example_client"]
    by (simp add: live_client_def example_client_def cleanup_made_calls teardown_calls_def)
qed

section \<open>Idempotence of \<open>cleanup\<close>\<close>

text \<open>
  C5, as the code has it. For every starting state, a second \<open>cleanup\<close> right after a
  first leaves the object as the first left it, with the context, the session and the SSL
  handle null and the socket at the sentinel \<open>0\<close>, and it frees no context, no session and
  closes no socket: on a build without \<open>_WIN32\<close> it makes no call at all, and on Windows
  it makes exactly one, the \<open>WSACleanup\<close> of line 112, which no test guards.
\<close>

theorem cleanup_twice:
  "fst (cleanup p (fst (cleanup p this w)) (snd (cleanup p this w))) = fst (cleanup p this w)
   \<and> released (fst (cleanup p this w))
   \<and> made_calls (snd (cleanup p this w))
        (snd (cleanup p (fst (cleanup p this w)) (snd (cleanup p this w))))
       = (case p of Win32 \<Rightarrow> [WSACleanup] | Posix \<Rightarrow> [])
   \<and> stderr_out (snd (cleanup p (fst (cleanup p this w)) (snd (cleanup p this w))))
       = stderr_out (snd (cleanup p this w))"
  by (simp add: cleanup_made_calls cleanup_released teardown_calls_released cleanup_stderr)
     (simp add: cleanup_object)

theorem cleanup_twice_witness:
  "released (fst (cleanup Posix live_client world0))
   \<and> made_calls (snd (cleanup Posix live_client world0))
        (snd (cleanup Posix (fst (cleanup Posix live_client world0))
               (snd (cleanup Posix live_client world0)))) = []"
  using cleanup_twice [of Posix live_client world0] by simp

text \<open>
  On Windows the second of two calls of \<open>cleanup\<close> does make a call that gives a resource
  back.
\<close>

theorem cleanup_twice_windows:
  "filter is_release
     (made_calls (snd (cleanup Win32 live_client world0))
        (snd (cleanup Win32 (fst (cleanup Win32 live_client world0))
               (snd (cleanup Win32 live_client world0))))) = [WSACleanup]"
  by (simp add: cleanup_made_calls cleanup_released teardown_calls_released)


section \<open>The paths through \<open>startTLSNegotiation\<close>\<close>

lemma handshake_paths
  [case_names no_ctx no_bio no_store no_connect no_handshake no_cert bad_verify ready]:
  assumes "SSL_CTX_new_ret env = None \<Longrightarrow> P"
    and "\<And>c. SSL_CTX_new_ret env = Some c \<Longrightarrow> BIO_new_ssl_connect_ret env = None \<Longrightarrow> P"
    and "\<And>c b. SSL_CTX_new_ret env = Some c \<Longrightarrow> BIO_new_ssl_connect_ret env = Some b
            \<Longrightarrow> trust_store_fails p env \<Longrightarrow> P"
    and "\<And>c b. SSL_CTX_new_ret env = Some c \<Longrightarrow> BIO_new_ssl_connect_ret env = Some b
            \<Longrightarrow> \<not> trust_store_fails p env \<Longrightarrow> BIO_do_connect_ret env \<le> 0 \<Longrightarrow> P"
    and "\<And>c b. SSL_CTX_new_ret env = Some c \<Longrightarrow> BIO_new_ssl_connect_ret env = Some b
            \<Longrightarrow> \<not> trust_store_fails p env \<Longrightarrow> 0 < BIO_do_connect_ret env
            \<Longrightarrow> BIO_do_handshake_ret env \<le> 0 \<Longrightarrow> P"
    and "\<And>c b. SSL_CTX_new_ret env = Some c \<Longrightarrow> BIO_new_ssl_connect_ret env = Some b
            \<Longrightarrow> \<not> trust_store_fails p env \<Longrightarrow> 0 < BIO_do_connect_ret env
            \<Longrightarrow> 0 < BIO_do_handshake_ret env \<Longrightarrow> SSL_get_peer_certificate_ret env = None \<Longrightarrow> P"
    and "\<And>c b x. SSL_CTX_new_ret env = Some c \<Longrightarrow> BIO_new_ssl_connect_ret env = Some b
            \<Longrightarrow> \<not> trust_store_fails p env \<Longrightarrow> 0 < BIO_do_connect_ret env
            \<Longrightarrow> 0 < BIO_do_handshake_ret env \<Longrightarrow> SSL_get_peer_certificate_ret env = Some x
            \<Longrightarrow> int_of_long (final_verify_result env) \<noteq> X509_V_OK \<Longrightarrow> P"
    and "\<And>c b x. SSL_CTX_new_ret env = Some c \<Longrightarrow> BIO_new_ssl_connect_ret env = Some b
            \<Longrightarrow> \<not> trust_store_fails p env \<Longrightarrow> 0 < BIO_do_connect_ret env
            \<Longrightarrow> 0 < BIO_do_handshake_ret env \<Longrightarrow> SSL_get_peer_certificate_ret env = Some x
            \<Longrightarrow> int_of_long (final_verify_result env) = X509_V_OK \<Longrightarrow> P"
  shows P
  using assms by (metis not_le option.exhaust)

lemmas tls_defs = startTLSNegotiation_def initializeSSLContext_def Let_def trust_store_fails_def
  addCommunicationLogItem_def

lemmas run_defs = tls_defs split_def cleanup_object cleanup_calls cleanup_stderr emit_def
  fprintf_stderr_def made_calls_def

lemma startTLSNegotiation_code:
  "fst (startTLSNegotiation E p env this w) =
    (if SSL_CTX_new_ret env = None then SSL_CLIENT_STARTTLS_INITSSLCTX_ERROR E
     else if BIO_new_ssl_connect_ret env = None then SSL_CLIENT_STARTTLS_BIONEWSSLCONNECT_ERROR E
     else if trust_store_fails p env then store_error E p
     else if BIO_do_connect_ret env \<le> 0 then SSL_CLIENT_STARTTLS_BIO_CONNECT_ERROR E
     else if BIO_do_handshake_ret env \<le> 0 then SSL_CLIENT_STARTTLS_BIO_HANDSHAKE_ERROR E
     else if SSL_get_peer_certificate_ret env = None
       then SSL_CLIENT_STARTTLS_GET_CERTIFICATE_ERROR E
     else if int_of_long (final_verify_result env) \<noteq> X509_V_OK
       then SSL_CLIENT_STARTTLS_VERIFY_RESULT_ERROR E
     else 0)"
proof (cases rule: handshake_paths [where env = env and p = p])
  case no_ctx
  then show ?thesis by (simp add: tls_defs)
next
  case (no_bio c)
  then show ?thesis by (simp add: tls_defs)
next
  case (no_store c b)
  then show ?thesis by (cases p) (simp_all add: tls_defs store_error_def)
next
  case (no_connect c b)
  then show ?thesis
    by (cases p; cases "CertOpenSystemStore_ret env") (simp_all add: run_defs)
next
  case (no_handshake c b)
  then show ?thesis
    by (cases p; cases "CertOpenSystemStore_ret env") (simp_all add: run_defs)
next
  case (no_cert c b)
  then show ?thesis
    by (cases p; cases "CertOpenSystemStore_ret env") (simp_all add: run_defs)
next
  case (bad_verify c b x)
  then show ?thesis
    by (cases p; cases "CertOpenSystemStore_ret env") (simp_all add: run_defs)
next
  case (ready c b x)
  then show ?thesis
    by (cases p; cases "CertOpenSystemStore_ret env") (simp_all add: run_defs)
qed

lemma torn_down_after_certificate_check:
  assumes "handshake_done p env"
    and "SSL_get_peer_certificate_ret env = None \<or> int_of_long (final_verify_result env) \<noteq> X509_V_OK"
  shows "released (fst (snd (startTLSNegotiation E p env this w)))
     \<and> set (teardown_calls p (session_of env this))
         \<subseteq> set (made_calls w (snd (snd (startTLSNegotiation E p env this w))))"
proof -
  from assms(1) obtain c b where cb: "SSL_CTX_new_ret env = Some c"
      "BIO_new_ssl_connect_ret env = Some b"
    by (auto simp: handshake_done_def)
  from assms(1) have rest: "\<not> trust_store_fails p env" "0 < BIO_do_connect_ret env"
      "0 < BIO_do_handshake_ret env"
    by (simp_all add: handshake_done_def)
  show ?thesis
  proof (cases "SSL_get_peer_certificate_ret env")
    case None
    with cb rest show ?thesis
      by (cases p; cases "CertOpenSystemStore_ret env")
         (auto simp add: run_defs released_def teardown_calls_def session_of_def)
  next
    case (Some x)
    with assms(2) have "int_of_long (final_verify_result env) \<noteq> X509_V_OK" by simp
    with Some cb rest show ?thesis
      by (cases p; cases "CertOpenSystemStore_ret env")
         (auto simp add: run_defs released_def teardown_calls_def session_of_def)
  qed
qed

section \<open>Properties of the handshake\<close>

text \<open>
  What the two certificate checks decide, in terms of the verification result as line 215
  keeps it. \<open>startTLSNegotiation\<close> returns \<open>0\<close> only if a peer certificate was presented
  and the narrowed result is OK (no error code being \<open>0\<close>). When the stages before the
  certificate check have succeeded, an absent certificate gives \<open>GET_CERTIFICATE_ERROR\<close>
  and a narrowed result other than OK gives \<open>VERIFY_RESULT_ERROR\<close>, in both cases after
  \<open>cleanup\<close>.
\<close>

lemma certificate_checks_on_narrowed_result:
  assumes "codes_nonzero E"
  shows "(fst (startTLSNegotiation E p env this w) = 0
            \<longrightarrow> SSL_get_peer_certificate_ret env \<noteq> None
                \<and> int_of_long (final_verify_result env) = X509_V_OK)
       \<and> (handshake_done p env \<and> SSL_get_peer_certificate_ret env = None
            \<longrightarrow> fst (startTLSNegotiation E p env this w)
                  = SSL_CLIENT_STARTTLS_GET_CERTIFICATE_ERROR E
                \<and> released (fst (snd (startTLSNegotiation E p env this w)))
                \<and> set (teardown_calls p (session_of env this))
                    \<subseteq> set (made_calls w (snd (snd (startTLSNegotiation E p env this w)))))
       \<and> (handshake_done p env \<and> SSL_get_peer_certificate_ret env \<noteq> None
              \<and> int_of_long (final_verify_result env) \<noteq> X509_V_OK
            \<longrightarrow> fst (startTLSNegotiation E p env this w)
                  = SSL_CLIENT_STARTTLS_VERIFY_RESULT_ERROR E
                \<and> released (fst (snd (startTLSNegotiation E p env this w)))
                \<and> set (teardown_calls p (session_of env this))
                    \<subseteq> set (made_calls w (snd (snd (startTLSNegotiation E p env this w)))))"
proof -
  have success: "fst (startTLSNegotiation E p env this w) = 0
      \<longrightarrow> SSL_get_peer_certificate_ret env \<noteq> None \<and> int_of_long (final_verify_result env) = X509_V_OK"
    using assms unfolding startTLSNegotiation_code
    by (cases p) (auto simp add: codes_nonzero_def store_error_def split: if_splits)
  have absent: "handshake_done p env \<and> SSL_get_peer_certificate_ret env = None
      \<longrightarrow> fst (startTLSNegotiation E p env this w)
            = SSL_CLIENT_STARTTLS_GET_CERTIFICATE_ERROR E
          \<and> released (fst (snd (startTLSNegotiation E p env this w)))
          \<and> set (teardown_calls p (session_of env this))
              \<subseteq> set (made_calls w (snd (snd (startTLSNegotiation E p env this w))))"
  proof
    assume h: "handshake_done p env \<and> SSL_get_peer_certificate_ret env = None"
    then have "fst (startTLSNegotiation E p env this w)
                 = SSL_CLIENT_STARTTLS_GET_CERTIFICATE_ERROR E"
      by (auto simp add: startTLSNegotiation_code handshake_done_def)
    moreover from h
    have "released (fst (snd (startTLSNegotiation E p env this w)))
          \<and> set (teardown_calls p (session_of env this))
              \<subseteq> set (made_calls w (snd (snd (startTLSNegotiation E p env this w))))"
      using torn_down_after_certificate_check [of p env E this w] by simp
    ultimately show "fst (startTLSNegotiation E p env this w)
            = SSL_CLIENT_STARTTLS_GET_CERTIFICATE_ERROR E
          \<and> released (fst (snd (startTLSNegotiation E p env this w)))
          \<and> set (teardown_calls p (session_of env this))
              \<subseteq> set (made_calls w (snd (snd (startTLSNegotiation E p env this w))))"
      by (rule conjI)
  qed
  have unverified: "handshake_done p env \<and> SSL_get_peer_certificate_ret env \<noteq> None
        \<and> int_of_long (final_verify_result env) \<noteq> X509_V_OK
      \<longrightarrow> fst (startTLSNegotiation E p env this w)
            = SSL_CLIENT_STARTTLS_VERIFY_RESULT_ERROR E
          \<and> released (fst (snd (startTLSNegotiation E p env this w)))
          \<and> set (teardown_calls p (session_of env this))
              \<subseteq> set (made_calls w (snd (snd (startTLSNegotiation E p env this w))))"
  proof
    assume h: "handshake_done p env \<and> SSL_get_peer_certificate_ret env \<noteq> None
        \<and> int_of_long (final_verify_result env) \<noteq> X509_V_OK"
    then have "fst (startTLSNegotiation E p env this w)
                 = SSL_CLIENT_STARTTLS_VERIFY_RESULT_ERROR E"
      by (auto simp add: startTLSNegotiation_code handshake_done_def)
    moreover from h
    have "released (fst (snd (startTLSNegotiation E p env this w)))
          \<and> set (teardown_calls p (session_of env this))
              \<subseteq> set (made_calls w (snd (snd (startTLSNegotiation E p env this w))))"
      using torn_down_after_certificate_check [of p env E this w] by simp
    ultimately show "fst (startTLSNegotiation E p env this w)
            = SSL_CLIENT_STARTTLS_VERIFY_RESULT_ERROR E
          \<and> released (fst (snd (startTLSNegotiation E p env this w)))
          \<and> set (teardown_calls p (session_of env this))
              \<subseteq> set (made_calls w (snd (snd (startTLSNegotiation E p env this w))))"
      by (rule conjI)
  qed
  from absent unverified have "(handshake_done p env \<and> SSL_get_peer_certificate_ret env = None
      \<longrightarrow> fst (startTLSNegotiation E p env this w)
            = SSL_CLIENT_STARTTLS_GET_CERTIFICATE_ERROR E
          \<and> released (fst (snd (startTLSNegotiation E p env this w)))
          \<and> set (teardown_calls p (session_of env this))
              \<subseteq> set (made_calls w (snd (snd (startTLSNegotiation E p env this w)))))
     \<and> (handshake_done p env \<and> SSL_get_peer_certificate_ret env \<noteq> None
        \<and> int_of_long (final_verify_result env) \<noteq> X509_V_OK
      \<longrightarrow> fst (startTLSNegotiation E p env this w)
            = SSL_CLIENT_STARTTLS_VERIFY_RESULT_ERROR E
          \<and> released (fst (snd (startTLSNegotiation E p env this w)))
          \<and> set (teardown_calls p (session_of env this))
              \<subseteq> set (made_calls w (snd (snd (startTLSNegotiation E p env this w)))))"
    by (rule conjI)
  with success show ?thesis by (rule conjI)
qed

lemma int_of_long_fits: "fits_int v \<Longrightarrow> int_of_long v = v"
  by (simp add: fits_int_def int_of_long_def)


text \<open>
  C8. If the trust-store step fails (the Windows certificate store cannot be opened, or the
  default trust paths cannot be set), \<open>startTLSNegotiation\<close> returns the store error code
  of the build, and the run makes no call of a later stage: no transport connect, no TLS
  handshake, no peer-certificate retrieval and no reading of the verification result.
\<close>

theorem trust_store_failure_stops_handshake:
  assumes "SSL_CTX_new_ret env \<noteq> None" and "BIO_new_ssl_connect_ret env \<noteq> None"
    and "trust_store_fails p env"
  shows "fst (startTLSNegotiation E p env this w) = store_error E p
       \<and> filter is_later_stage (made_calls w (snd (snd (startTLSNegotiation E p env this w))))
           = []"
proof -
  from assms obtain c b where c: "SSL_CTX_new_ret env = Some c"
    and b: "BIO_new_ssl_connect_ret env = Some b"
    by auto
  show ?thesis
  proof (cases p)
    case Win32
    with assms(3) c b show ?thesis by (simp add: run_defs store_error_def)
  next
    case Posix
    with assms(3) c b show ?thesis by (simp add: run_defs store_error_def)
  qed
qed

theorem trust_store_failure_stops_handshake_witness:
  "trust_store_fails Win32 (good_env\<lparr>CertOpenSystemStore_ret := None\<rparr>)
   \<and> fst (startTLSNegotiation example_codes Win32
            (good_env\<lparr>CertOpenSystemStore_ret := None\<rparr>) example_client world0) = - 32
   \<and> filter is_later_stage (made_calls world0 (snd (snd (startTLSNegotiation example_codes Win32
            (good_env\<lparr>CertOpenSystemStore_ret := None\<rparr>) example_client world0)))) = []
   \<and> trust_store_fails Posix (good_env\<lparr>SSL_CTX_set_default_verify_paths_ret := 0\<rparr>)
   \<and> fst (startTLSNegotiation example_codes Posix
            (good_env\<lparr>SSL_CTX_set_default_verify_paths_ret := 0\<rparr>) example_client world0) = - 33
   \<and> filter is_later_stage (made_calls world0 (snd (snd (startTLSNegotiation example_codes Posix
            (good_env\<lparr>SSL_CTX_set_default_verify_paths_ret := 0\<rparr>) example_client world0)))) = []"
proof -
  have w: "trust_store_fails Win32 (good_env\<lparr>CertOpenSystemStore_ret := None\<rparr>)"
    and x: "trust_store_fails Posix (good_env\<lparr>SSL_CTX_set_default_verify_paths_ret := 0\<rparr>)"
    by (simp_all add: trust_store_fails_def)
  have c1: "SSL_CTX_new_ret (good_env\<lparr>CertOpenSystemStore_ret := None\<rparr>) \<noteq> None"
    and b1: "BIO_new_ssl_connect_ret (good_env\<lparr>CertOpenSystemStore_ret := None\<rparr>) \<noteq> None"
    and c2: "SSL_CTX_new_ret (good_env\<lparr>SSL_CTX_set_default_verify_paths_ret := 0\<rparr>) \<noteq> None"
    and b2: "BIO_new_ssl_connect_ret (good_env\<lparr>SSL_CTX_set_default_verify_paths_ret := 0\<rparr>)
              \<noteq> None"
    by (simp_all add: good_env_def)
  show ?thesis
    using trust_store_failure_stops_handshake [OF c1 b1 w, of example_codes example_client world0]
      trust_store_failure_stops_handshake [OF c2 b2 x, of example_codes example_client world0]
      w x
    by (simp add: store_error_def example_codes_def)
qed

text \<open>
  C9. The verification result read before the handshake is advisory. Two runs of
  \<open>startTLSNegotiation\<close> that differ only in that value return the same code, leave the
  same object and make the same calls; the value shows only on \<open>stderr\<close>, where a value
  other than OK adds one warning line when the run reaches line 179.
\<close>

theorem pre_handshake_check_is_advisory:
  "fst (startTLSNegotiation E p (env\<lparr>pre_verify_result := v1\<rparr>) this w)
     = fst (startTLSNegotiation E p (env\<lparr>pre_verify_result := v2\<rparr>) this w)
   \<and> fst (snd (startTLSNegotiation E p (env\<lparr>pre_verify_result := v1\<rparr>) this w))
     = fst (snd (startTLSNegotiation E p (env\<lparr>pre_verify_result := v2\<rparr>) this w))
   \<and> calls (snd (snd (startTLSNegotiation E p (env\<lparr>pre_verify_result := v1\<rparr>) this w)))
     = calls (snd (snd (startTLSNegotiation E p (env\<lparr>pre_verify_result := v2\<rparr>) this w)))
   \<and> stderr_out (snd (snd (startTLSNegotiation E p (env\<lparr>pre_verify_result := v1\<rparr>) this w)))
     = stderr_out w
       @ (if SSL_CTX_new_ret env = None \<or> BIO_new_ssl_connect_ret env = None
             \<or> trust_store_fails p env \<or> v1 = X509_V_OK
          then [] else [Certificate_verification_error v1])"
proof (cases rule: handshake_paths [where env = env and p = p])
  case no_ctx
  then show ?thesis by (simp add: run_defs)
next
  case (no_bio c)
  then show ?thesis by (simp add: run_defs)
next
  case (no_store c b)
  then show ?thesis by (cases p) (simp_all add: run_defs)
next
  case (no_connect c b)
  then show ?thesis
    by (cases p; cases "CertOpenSystemStore_ret env") (simp_all add: run_defs)
next
  case (no_handshake c b)
  then show ?thesis
    by (cases p; cases "CertOpenSystemStore_ret env") (simp_all add: run_defs)
next
  case (no_cert c b)
  then show ?thesis
    by (cases p; cases "CertOpenSystemStore_ret env") (simp_all add: run_defs)
next
  case (bad_verify c b x)
  then show ?thesis
    by (cases p; cases "CertOpenSystemStore_ret env") (simp_all add: run_defs)
next
  case (ready c b x)
  then show ?thesis
    by (cases p; cases "CertOpenSystemStore_ret env") (simp_all add: run_defs)
qed

theorem pre_handshake_check_is_advisory_witness:
  "fst (startTLSNegotiation example_codes Posix (good_env\<lparr>pre_verify_result := 20\<rparr>)
          example_client world0) = 0
   \<and> stderr_out (snd (snd (startTLSNegotiation example_codes Posix
          (good_env\<lparr>pre_verify_result := 20\<rparr>) example_client world0)))
       = [Certificate_verification_error 20]"
proof -
  have "fst (startTLSNegotiation example_codes Posix (good_env\<lparr>pre_verify_result := 0\<rparr>)
          example_client world0) = 0"
    by (simp add: startTLSNegotiation_code trust_store_fails_def good_env_def X509_V_OK_def
        int_of_long_def)
  then show ?thesis
    using pre_handshake_check_is_advisory [where E = example_codes and p = Posix
        and env = good_env and ?v1.0 = 20 and this = example_client and w = world0
        and ?v2.0 = 0]
    by (simp add: good_env_def trust_store_fails_def world0_def X509_V_OK_def)
qed

text \<open>
  C1, at inputs where the code does otherwise. When \<open>BIO_new_ssl_connect\<close> answers null
  (line 140), and when the trust store cannot be provisioned (lines 159 and 175),
  \<open>startTLSNegotiation\<close> returns its error code without calling \<open>cleanup\<close>: the context
  (and, at the later stage, the session and the SSL handle) stays in the object, the socket
  stays open, and nothing has been freed or closed.
\<close>

theorem early_failures_return_without_cleanup:
  "fst (startTLSNegotiation example_codes Posix (good_env\<lparr>BIO_new_ssl_connect_ret := None\<rparr>)
          example_client world0) = - 31
   \<and> mCTX (fst (snd (startTLSNegotiation example_codes Posix
          (good_env\<lparr>BIO_new_ssl_connect_ret := None\<rparr>) example_client world0))) = Some 1
   \<and> mSock (fst (snd (startTLSNegotiation example_codes Posix
          (good_env\<lparr>BIO_new_ssl_connect_ret := None\<rparr>) example_client world0))) = 5
   \<and> filter is_release (calls (snd (snd (startTLSNegotiation example_codes Posix
          (good_env\<lparr>BIO_new_ssl_connect_ret := None\<rparr>) example_client world0)))) = []
   \<and> fst (startTLSNegotiation example_codes Posix
          (good_env\<lparr>SSL_CTX_set_default_verify_paths_ret := 0\<rparr>) example_client world0) = - 33
   \<and> mCTX (fst (snd (startTLSNegotiation example_codes Posix
          (good_env\<lparr>SSL_CTX_set_default_verify_paths_ret := 0\<rparr>) example_client world0)))
       = Some 1
   \<and> mBIO (fst (snd (startTLSNegotiation example_codes Posix
          (good_env\<lparr>SSL_CTX_set_default_verify_paths_ret := 0\<rparr>) example_client world0)))
       = Some 2
   \<and> mSSL (fst (snd (startTLSNegotiation example_codes Posix
          (good_env\<lparr>SSL_CTX_set_default_verify_paths_ret := 0\<rparr>) example_client world0)))
       = Some 3
   \<and> mSock (fst (snd (startTLSNegotiation example_codes Posix
          (good_env\<lparr>SSL_CTX_set_default_verify_paths_ret := 0\<rparr>) example_client world0))) = 5
   \<and> filter is_release (calls (snd (snd (startTLSNegotiation example_codes Posix
          (good_env\<lparr>SSL_CTX_set_default_verify_paths_ret := 0\<rparr>) example_client world0)))) = []
   \<and> fst (startTLSNegotiation example_codes Win32
          (good_env\<lparr>CertOpenSystemStore_ret := None\<rparr>) example_client world0) = - 32
   \<and> mCTX (fst (snd (startTLSNegotiation example_codes Win32
          (good_env\<lparr>CertOpenSystemStore_ret := None\<rparr>) example_client world0))) = Some 1
   \<and> mBIO (fst (snd (startTLSNegotiation example_codes Win32
          (good_env\<lparr>CertOpenSystemStore_ret := None\<rparr>) example_client world0))) = Some 2
   \<and> mSock (fst (snd (startTLSNegotiation example_codes Win32
          (good_env\<lparr>CertOpenSystemStore_ret := None\<rparr>) example_client world0))) = 5
   \<and> filter is_release (calls (snd (snd (startTLSNegotiation example_codes Win32
          (good_env\<lparr>CertOpenSystemStore_ret := None\<rparr>) example_client world0)))) = []"
  by (simp add: tls_defs emit_def good_env_def example_client_def example_codes_def world0_def)


section \<open>The read loop\<close>

lemma emit_emit: "emit a (emit b w) = emit (b @ a) w"
  by (simp add: emit_def)

lemma read_into_nothing: "bytes_received_of r \<le> 0 \<Longrightarrow> read_into r outbuf = outbuf"
  by (cases r) simp_all

lemma unat_succ_below: "(x :: 32 word) < T \<Longrightarrow> unat (x + 1) = Suc (unat x)"
proof -
  assume lt: "x < T"
  have "x + 1 \<noteq> 0"
  proof
    assume "x + 1 = 0"
    then have "x = - 1" by (simp add: eq_neg_iff_add_eq_0)
    with lt show False by simp
  qed
  then have "1 + x \<noteq> 0" by (simp add: add.commute)
  then have "unat (1 + x) = Suc (unat x)" by (rule unatSuc)
  then show ?thesis by (simp add: add.commute)
qed

lemma of_nat_below: "m < unat (T :: 32 word) \<Longrightarrow> (of_nat m :: 32 word) < T"
proof -
  assume "m < unat T"
  moreover have "unat (of_nat m :: 32 word) \<le> m" by (simp add: unat_of_nat)
  ultimately show ?thesis by (simp add: word_less_nat_alt)
qed

text \<open>
  The loop sleeps \<open>m\<close> times when the first \<open>m\<close> reads bring nothing, the budget allows
  \<open>m\<close> sleeps, and the read after them brings bytes or finds the budget used up.
\<close>

lemma read_loop_run:
  assumes "\<forall>j<m. bytes_received_of (BIO_read_ret env (k + j)) \<le> 0"
    and "unat x + m \<le> unat T"
    and "0 < bytes_received_of (BIO_read_ret env (k + m)) \<or> unat x + m = unat T"
  shows "read_loop p env bio T k x outbuf w =
           (bytes_received_of (BIO_read_ret env (k + m)), x + of_nat m,
            read_into (BIO_read_ret env (k + m)) outbuf, emit (polling p bio m) w)"
  using assms
proof (induction m arbitrary: k x w)
  case 0
  then have "\<not> (bytes_received_of (BIO_read_ret env k) \<le> 0 \<and> x < T)"
    by (auto simp: word_less_nat_alt)
  then show ?case
    by (subst read_loop.simps) (auto simp add: polling_def)
next
  case (Suc m)
  from Suc.prems(1) have silent: "bytes_received_of (BIO_read_ret env k) \<le> 0"
    by (metis add.right_neutral zero_less_Suc)
  from Suc.prems(2) have lt: "x < T" by (simp add: word_less_nat_alt)
  have step: "unat (x + 1) = Suc (unat x)" using lt by (rule unat_succ_below)
  have a: "\<forall>j<m. bytes_received_of (BIO_read_ret env (Suc k + j)) \<le> 0"
    using Suc.prems(1) by (metis Suc_less_eq add_Suc_shift)
  have b: "unat (x + 1) + m \<le> unat T" using Suc.prems(2) step by simp
  have c: "0 < bytes_received_of (BIO_read_ret env (Suc k + m)) \<or> unat (x + 1) + m = unat T"
    using Suc.prems(3) step by simp
  have "read_loop p env bio T k x outbuf w =
        read_loop p env bio T (Suc k) (x + 1) outbuf (emit [BIO_read bio, sleep p 1] w)"
    using silent lt by (subst read_loop.simps) (simp add: read_into_nothing)
  also have "\<dots> = (bytes_received_of (BIO_read_ret env (Suc k + m)), x + 1 + of_nat m,
            read_into (BIO_read_ret env (Suc k + m)) outbuf,
            emit (polling p bio m) (emit [BIO_read bio, sleep p 1] w))"
    by (rule Suc.IH [OF a b c])
  finally show ?case
    by (simp add: emit_emit polling_def add.assoc)
qed

text \<open>Line 274 is passed only with bytes in the buffer.\<close>

lemma read_loop_in_time:
  assumes "read_loop p env bio T k x outbuf w = (n, x', buf, w')" and "x' < T"
  shows "0 < n"
  using assms
proof (induction p env bio T k x outbuf w rule: read_loop.induct)
  case (1 p env bio T k waitTime outbuf w)
  show ?case
  proof (cases "bytes_received_of (BIO_read_ret env k) \<le> 0 \<and> waitTime < T")
    case True
    with "1.prems" "1.IH" show ?thesis
      by (subst (asm) read_loop.simps) simp
  next
    case False
    with "1.prems" show ?thesis
      by (subst (asm) read_loop.simps) auto
  qed
qed

lemma c_str_cut: "c_str (xs @ CHR 0x00 # ys) = c_str xs"
  by (induction xs) (simp_all add: c_str_def)

lemma outbuf_terminated:
  assumes "d \<noteq> []"
  shows "c_str ((d @ drop (length d) buf)[nat (int (length d) - 1) := CHR 0x00])
           = c_str (butlast d)"
proof -
  from assms obtain xs x where d: "d = xs @ [x]" by (metis append_butlast_last_id)
  have "nat (int (length d) - 1) = length xs" using d by simp
  then have "(d @ drop (length d) buf)[nat (int (length d) - 1) := CHR 0x00]
             = xs @ CHR 0x00 # drop (length d) buf"
    using d by (simp add: list_update_append)
  then show ?thesis using d by (simp add: c_str_cut)
qed

lemma polling_sleeps: "filter is_sleep (polling p bio m) = replicate m (sleep p 1)"
  by (induction m; cases p) (simp_all add: polling_def)

lemma teardown_never_sleeps: "filter is_sleep (teardown_calls p t) = []"
  by (cases p) (simp_all add: teardown_calls_def split: option.splits)

section \<open>The runs of \<open>sendCommandWithFeedback\<close>\<close>

lemma timeout_run:
  assumes "0 \<le> BIO_puts_ret env"
    and "\<forall>j<unat (mCommandTimeOut this). bytes_received_of (BIO_read_ret env j) \<le> 0"
  shows "sendCommandWithFeedback p env xrc pCommand pErrorCode pTimeoutCode this w =
           (pTimeoutCode,
            cleanup p this
              (emit (BIO_puts (mBIO this) pCommand
                     # polling p (mBIO this) (unat (mCommandTimeOut this))) w))"
proof -
  let ?T = "mCommandTimeOut this"
  have "read_loop p env (mBIO this) ?T 0 0 (outbuf_init env)
          (emit [BIO_puts (mBIO this) pCommand] w) =
        (bytes_received_of (BIO_read_ret env (0 + unat ?T)), 0 + of_nat (unat ?T),
         read_into (BIO_read_ret env (0 + unat ?T)) (outbuf_init env),
         emit (polling p (mBIO this) (unat ?T)) (emit [BIO_puts (mBIO this) pCommand] w))"
    using assms(2) by (intro read_loop_run) simp_all
  with assms(1) show ?thesis
    by (simp add: sendCommandWithFeedback_def Let_def emit_emit split: prod.splits)
qed

lemma data_run:
  assumes "0 \<le> BIO_puts_ret env"
    and "m < unat (mCommandTimeOut this)"
    and "\<forall>j<m. bytes_received_of (BIO_read_ret env j) \<le> 0"
    and "BIO_read_ret env m = Read_bytes d" and "d \<noteq> []"
  shows "sendCommandWithFeedback p env xrc pCommand pErrorCode pTimeoutCode this w =
           (xrc (c_str (butlast d)),
            addCommunicationLogItem (c_str (butlast d)) (Some ''s'')
              (setLastServerResponse (c_str (butlast d)) this),
            emit (BIO_puts (mBIO this) pCommand # polling p (mBIO this) m) w)"
proof -
  let ?T = "mCommandTimeOut this"
  have "read_loop p env (mBIO this) ?T 0 0 (outbuf_init env)
          (emit [BIO_puts (mBIO this) pCommand] w) =
        (bytes_received_of (BIO_read_ret env (0 + m)), 0 + of_nat m,
         read_into (BIO_read_ret env (0 + m)) (outbuf_init env),
         emit (polling p (mBIO this) m) (emit [BIO_puts (mBIO this) pCommand] w))"
    using assms(2-5) by (intro read_loop_run) simp_all
  moreover have "(of_nat m :: 32 word) < ?T" using assms(2) by (rule of_nat_below)
  ultimately show ?thesis using assms(1,4,5)
    by (simp add: sendCommandWithFeedback_def Let_def emit_emit outbuf_terminated)
qed

lemma write_failure_run:
  assumes "BIO_puts_ret env < 0"
  shows "sendCommandWithFeedback p env xrc pCommand pErrorCode pTimeoutCode this w =
           (pErrorCode,
            cleanup p (this\<lparr>mLastSocketErrNo := ERR_get_error_ret env\<rparr>)
              (emit [BIO_puts (mBIO this) pCommand, ERR_get_error] w))"
  using assms by (simp add: sendCommandWithFeedback_def Let_def emit_emit split: prod.splits)

text \<open>
  With a successful write and a silent server the function sleeps once per unit of the
  budget, cleans up and returns the timeout code, on either build.
\<close>

lemma timeout_after_budget:
  assumes "0 \<le> BIO_puts_ret env"
    and "\<forall>j. bytes_received_of (BIO_read_ret env j) \<le> 0"
  shows "fst (sendCommandWithFeedback p env xrc pCommand pErrorCode pTimeoutCode this w)
           = pTimeoutCode
       \<and> released (fst (snd (sendCommandWithFeedback p env xrc pCommand pErrorCode
             pTimeoutCode this w)))
       \<and> filter is_sleep (made_calls w (snd (snd (sendCommandWithFeedback p env xrc pCommand
             pErrorCode pTimeoutCode this w))))
           = replicate (unat (mCommandTimeOut this)) (sleep p 1)"
proof -
  from assms(2)
  have "\<forall>j<unat (mCommandTimeOut this). bytes_received_of (BIO_read_ret env j) \<le> 0"
    by simp
  from timeout_run [OF assms(1) this] show ?thesis
    by (simp add: cleanup_released made_calls_def cleanup_calls emit_def polling_sleeps
        teardown_never_sleeps)
qed

section \<open>Properties of the command channel\<close>

text \<open>
  C10. If the write succeeds, every read made while the elapsed-time counter is below the
  timeout budget brings nothing, and bytes arrive only with the read made once the counter
  has reached the budget (with a budget of \<open>0\<close>: the very first read), then
  \<open>sendCommandWithFeedback\<close> discards those bytes: the stored last response and the log
  stay as they were, \<open>cleanup\<close> runs, and the timeout code is returned.
\<close>

theorem late_data_is_discarded:
  assumes "0 \<le> BIO_puts_ret env"
    and "\<forall>j<unat (mCommandTimeOut this). bytes_received_of (BIO_read_ret env j) \<le> 0"
    and "0 < bytes_received_of (BIO_read_ret env (unat (mCommandTimeOut this)))"
  shows "fst (sendCommandWithFeedback p env xrc pCommand pErrorCode pTimeoutCode this w)
           = pTimeoutCode
       \<and> released (fst (snd (sendCommandWithFeedback p env xrc pCommand pErrorCode
             pTimeoutCode this w)))
       \<and> mLastServerResponse (fst (snd (sendCommandWithFeedback p env xrc pCommand pErrorCode
             pTimeoutCode this w))) = mLastServerResponse this
       \<and> mCommunicationLog (fst (snd (sendCommandWithFeedback p env xrc pCommand pErrorCode
             pTimeoutCode this w))) = mCommunicationLog this
       \<and> made_calls w (snd (snd (sendCommandWithFeedback p env xrc pCommand pErrorCode
             pTimeoutCode this w)))
           = BIO_puts (mBIO this) pCommand
             # polling p (mBIO this) (unat (mCommandTimeOut this)) @ teardown_calls p this"
  using timeout_run [OF assms(1,2)]
  by (simp add: released_def cleanup_object made_calls_def cleanup_calls emit_def)

theorem late_data_is_discarded_witness:
  "fst (sendCommandWithFeedback Posix good_env example_parser ''ehlo localhost'' (- 38) (- 39)
          (live_client\<lparr>mCommandTimeOut := 0\<rparr>) world0) = - 39
   \<and> released (fst (snd (sendCommandWithFeedback Posix good_env example_parser
          ''ehlo localhost'' (- 38) (- 39) (live_client\<lparr>mCommandTimeOut := 0\<rparr>) world0)))
   \<and> fst (sendCommandWithFeedback Posix late_env example_parser ''ehlo localhost'' (- 38) (- 39)
          live_client world0) = - 39
   \<and> mLastServerResponse (fst (snd (sendCommandWithFeedback Posix late_env example_parser
          ''ehlo localhost'' (- 38) (- 39) live_client world0))) = []"
proof -
  have a1: "0 \<le> BIO_puts_ret good_env" and a2: "0 \<le> BIO_puts_ret late_env"
    by (simp_all add: good_env_def late_env_def)
  have b1: "\<forall>j<unat (mCommandTimeOut (live_client\<lparr>mCommandTimeOut := 0\<rparr>)).
              bytes_received_of (BIO_read_ret good_env j) \<le> 0"
    by simp
  have b2: "\<forall>j<unat (mCommandTimeOut live_client).
              bytes_received_of (BIO_read_ret late_env j) \<le> 0"
    by (simp add: live_client_def example_client_def late_env_def)
  have c1: "0 < bytes_received_of (BIO_read_ret good_env
              (unat (mCommandTimeOut (live_client\<lparr>mCommandTimeOut := 0\<rparr>))))"
    by (simp add: good_env_def CRLF_def)
  have c2: "0 < bytes_received_of (BIO_read_ret late_env (unat (mCommandTimeOut live_client)))"
    by (simp add: live_client_def example_client_def late_env_def CRLF_def)
  show ?thesis
    using late_data_is_discarded [OF a1 b1 c1, of Posix example_parser "''ehlo localhost''"
        "- 38" "- 39" world0]
      late_data_is_discarded [OF a2 b2 c2, of Posix example_parser "''ehlo localhost''"
        "- 38" "- 39" world0]
    by (simp add: live_client_def example_client_def)
qed

text \<open>
  C3, at an input where the code does otherwise. On the Windows build the name \<open>sleep\<close> is
  \<open>Sleep\<close> (line 13), whose argument is in milliseconds. With a budget of 3 and a server
  that never answers, the function makes three calls \<open>Sleep(1)\<close>, one millisecond each,
  cleans up and returns the timeout code; the same run on the other build makes three
  calls \<open>sleep(1)\<close>, one second each.
\<close>

theorem windows_timeout_sleeps_milliseconds:
  "fst (sendCommandWithFeedback Win32 silent_env example_parser ''ehlo localhost'' (- 38) (- 39)
          live_client world0) = - 39
   \<and> released (fst (snd (sendCommandWithFeedback Win32 silent_env example_parser
          ''ehlo localhost'' (- 38) (- 39) live_client world0)))
   \<and> filter is_sleep (calls (snd (snd (sendCommandWithFeedback Win32 silent_env example_parser
          ''ehlo localhost'' (- 38) (- 39) live_client world0))))
       = [Sleep_ms 1, Sleep_ms 1, Sleep_ms 1]
   \<and> sum_list (map requested_ms (calls (snd (snd (sendCommandWithFeedback Win32 silent_env
          example_parser ''ehlo localhost'' (- 38) (- 39) live_client world0))))) = 3
   \<and> filter is_sleep (calls (snd (snd (sendCommandWithFeedback Posix silent_env example_parser
          ''ehlo localhost'' (- 38) (- 39) live_client world0))))
       = [sleep_s 1, sleep_s 1, sleep_s 1]
   \<and> sum_list (map requested_ms (calls (snd (snd (sendCommandWithFeedback Posix silent_env
          example_parser ''ehlo localhost'' (- 38) (- 39) live_client world0))))) = 3000"
proof -
  have a: "0 \<le> BIO_puts_ret silent_env"
    by (simp add: silent_env_def good_env_def)
  have b: "\<forall>j<unat (mCommandTimeOut live_client).
             bytes_received_of (BIO_read_ret silent_env j) \<le> 0"
    by (simp add: silent_env_def)
  have T: "unat (mCommandTimeOut live_client) = Suc (Suc (Suc 0))"
    by (simp add: live_client_def example_client_def)
  show ?thesis
    unfolding timeout_run [OF a b] T
    by (simp add: cleanup_released cleanup_calls emit_def polling_def teardown_calls_def
        live_client_def example_client_def world0_def)
qed

text \<open>
  C4, as the code has it. When the write succeeds and the first read that brings bytes is
  made before the budget is used up, line 275 overwrites the last received byte with NUL:
  the stored last response and the text handed to \<open>extractReturnCode\<close> are the received
  bytes without the last one, up to the first NUL. For \<open>250 OK\<close> followed by CR LF only
  the LF goes: the stored response is \<open>250 OK\<close> followed by CR, and the leading token of
  that text is the reply code 250.
\<close>

theorem response_loses_last_byte_only:
  assumes "0 \<le> BIO_puts_ret env"
    and "m < unat (mCommandTimeOut this)"
    and "\<forall>j<m. bytes_received_of (BIO_read_ret env j) \<le> 0"
    and "BIO_read_ret env m = Read_bytes d" and "d \<noteq> []"
  shows "fst (sendCommandWithFeedback p env xrc pCommand pErrorCode pTimeoutCode this w)
           = xrc (c_str (butlast d))
       \<and> mLastServerResponse (fst (snd (sendCommandWithFeedback p env xrc pCommand pErrorCode
             pTimeoutCode this w))) = c_str (butlast d)
       \<and> mCommunicationLog (fst (snd (sendCommandWithFeedback p env xrc pCommand pErrorCode
             pTimeoutCode this w)))
           = mCommunicationLog this @ [(Some ''s'', c_str (butlast d))]
       \<and> (d = ''250 OK'' @ CRLF
            \<longrightarrow> mLastServerResponse (fst (snd (sendCommandWithFeedback p env xrc pCommand
                   pErrorCode pTimeoutCode this w))) = ''250 OK'' @ [CHR 0x0D]
                \<and> extractReturnCode_spec (mLastServerResponse (fst (snd
                     (sendCommandWithFeedback p env xrc pCommand pErrorCode pTimeoutCode
                        this w)))) = Some 250)"
proof -
  have parsed: "extractReturnCode_spec (''250 OK'' @ [CHR 0x0D]) = Some 250"
    by (simp add: extractReturnCode_spec_def first_token_def is_space_def is_digit_def)
  have cut: "c_str (butlast (''250 OK'' @ CRLF)) = ''250 OK'' @ [CHR 0x0D]"
    by (simp add: c_str_def CRLF_def)
  show ?thesis
    unfolding data_run [OF assms]
    using parsed cut
    by (simp add: addCommunicationLogItem_def setLastServerResponse_def)
qed

theorem response_loses_last_byte_only_witness:
  "fst (sendCommandWithFeedback Posix slow_env example_parser ''ehlo localhost'' (- 38) (- 39)
          live_client world0) = 250
   \<and> mLastServerResponse (fst (snd (sendCommandWithFeedback Posix slow_env example_parser
          ''ehlo localhost'' (- 38) (- 39) live_client world0))) = ''250 OK'' @ [CHR 0x0D]"
proof -
  have a: "0 \<le> BIO_puts_ret slow_env"
    by (simp add: slow_env_def good_env_def)
  have b: "1 < unat (mCommandTimeOut live_client)"
    by (simp add: live_client_def example_client_def)
  have c: "\<forall>j<1. bytes_received_of (BIO_read_ret slow_env j) \<le> 0"
    by (simp add: slow_env_def)
  have d: "BIO_read_ret slow_env 1 = Read_bytes (''250 OK'' @ CRLF)"
    by (simp add: slow_env_def)
  have e: "''250 OK'' @ CRLF \<noteq> []"
    by simp
  have f: "example_parser (''250 OK'' @ [CHR 0x0D]) = 250"
    by (simp add: example_parser_def extractReturnCode_spec_def first_token_def is_space_def
        is_digit_def)
  have g: "c_str (butlast (''250 OK'' @ CRLF)) = ''250 OK'' @ [CHR 0x0D]"
    by (simp add: c_str_def CRLF_def)
  show ?thesis
    using response_loses_last_byte_only [OF a b c d e, of Posix example_parser
        "''ehlo localhost''" "- 38" "- 39" world0] f g
    by simp
qed

text \<open>
  For the raw response \<open>250 OK\<close> CR LF, received at the first read, the stored last
  response is not \<open>250 OK\<close>: the carriage return is still there.
\<close>

theorem stored_response_keeps_carriage_return:
  "mLastServerResponse (fst (snd (sendCommandWithFeedback Posix good_env example_parser
       ''ehlo localhost'' (- 38) (- 39) live_client world0))) = ''250 OK'' @ [CHR 0x0D]
   \<and> mLastServerResponse (fst (snd (sendCommandWithFeedback Posix good_env example_parser
       ''ehlo localhost'' (- 38) (- 39) live_client world0))) \<noteq> ''250 OK''"
proof -
  have a: "0 \<le> BIO_puts_ret good_env"
    by (simp add: good_env_def)
  have b: "0 < unat (mCommandTimeOut live_client)"
    by (simp add: live_client_def example_client_def)
  have c: "\<forall>j<0. bytes_received_of (BIO_read_ret good_env j) \<le> 0"
    by simp
  have d: "BIO_read_ret good_env 0 = Read_bytes (''250 OK'' @ CRLF)"
    by (simp add: good_env_def)
  have e: "''250 OK'' @ CRLF \<noteq> []"
    by simp
  have g: "c_str (butlast (''250 OK'' @ CRLF)) = ''250 OK'' @ [CHR 0x0D]"
    by (simp add: c_str_def CRLF_def)
  show ?thesis
    unfolding data_run [OF a b c d e] g
    by (simp add: addCommunicationLogItem_def setLastServerResponse_def)
qed


end
